theory Spec2Isabelle
  imports Main "HOL-Library.AList"
begin

section \<open>Text\<close>

text \<open>
  Python strings are modelled as \<open>string\<close>. The code points outside ASCII that the
  bot's messages use are written as their UTF-8 bytes; no function of the program counts
  the characters of a text that contains one.
\<close>

definition mobile_phone :: string where "mobile_phone = [CHR 0xF0, CHR 0x9F, CHR 0x93, CHR 0xB1]"
definition shopping_trolley :: string where "shopping_trolley = [CHR 0xF0, CHR 0x9F, CHR 0x9B, CHR 0x92]"
definition incoming_envelope :: string where "incoming_envelope = [CHR 0xF0, CHR 0x9F, CHR 0x93, CHR 0xA8]"
definition question_mark :: string where "question_mark = [CHR 0xE2, CHR 0x9D, CHR 0x93]"
definition rocket :: string where "rocket = [CHR 0xF0, CHR 0x9F, CHR 0x9A, CHR 0x80]"
definition bullet :: string where "bullet = [CHR 0xE2, CHR 0x80, CHR 0xA2]"
definition earth_globe :: string where "earth_globe = [CHR 0xF0, CHR 0x9F, CHR 0x8C, CHR 0x8D]"
definition high_voltage :: string where "high_voltage = [CHR 0xE2, CHR 0x9A, CHR 0xA1]"
definition robot_face :: string where "robot_face = [CHR 0xF0, CHR 0x9F, CHR 0xA4, CHR 0x96]"
definition circle_arrows :: string where "circle_arrows = [CHR 0xF0, CHR 0x9F, CHR 0x94, CHR 0x84]"
definition cross_mark :: string where "cross_mark = [CHR 0xE2, CHR 0x9D, CHR 0x8C]"
definition globe_meridians :: string where "globe_meridians = [CHR 0xF0, CHR 0x9F, CHR 0x8C, CHR 0x90]"
definition left_arrow :: string where
  "left_arrow = [CHR 0xE2, CHR 0xAC, CHR 0x85, CHR 0xEF, CHR 0xB8, CHR 0x8F]"
definition right_arrow :: string where
  "right_arrow = [CHR 0xE2, CHR 0x9E, CHR 0xA1, CHR 0xEF, CHR 0xB8, CHR 0x8F]"
definition house :: string where "house = [CHR 0xF0, CHR 0x9F, CHR 0x8F, CHR 0xA0]"
definition flag_us :: string where
  "flag_us = [CHR 0xF0, CHR 0x9F, CHR 0x87, CHR 0xBA, CHR 0xF0, CHR 0x9F, CHR 0x87, CHR 0xB8]"
definition flag_gb :: string where
  "flag_gb = [CHR 0xF0, CHR 0x9F, CHR 0x87, CHR 0xAC, CHR 0xF0, CHR 0x9F, CHR 0x87, CHR 0xA7]"
definition flag_ca :: string where
  "flag_ca = [CHR 0xF0, CHR 0x9F, CHR 0x87, CHR 0xA8, CHR 0xF0, CHR 0x9F, CHR 0x87, CHR 0xA6]"
definition flag_au :: string where
  "flag_au = [CHR 0xF0, CHR 0x9F, CHR 0x87, CHR 0xA6, CHR 0xF0, CHR 0x9F, CHR 0x87, CHR 0xBA]"
definition back_arrow :: string where "back_arrow = [CHR 0xF0, CHR 0x9F, CHR 0x94, CHR 0x99]"
definition check_mark :: string where "check_mark = [CHR 0xE2, CHR 0x9C, CHR 0x85]"
definition squared_id :: string where "squared_id = [CHR 0xF0, CHR 0x9F, CHR 0x86, CHR 0x94]"
definition open_mailbox :: string where "open_mailbox = [CHR 0xF0, CHR 0x9F, CHR 0x93, CHR 0xAD]"
definition box_horizontal :: string where "box_horizontal = [CHR 0xE2, CHR 0x94, CHR 0x80]"

text \<open>\<open>str(n)\<close> of a Python integer.\<close>

fun str_nat :: "nat \<Rightarrow> string" where
  "str_nat n =
     (if n < 10 then [''0123456789'' ! n]
      else str_nat (n div 10) @ [''0123456789'' ! (n mod 10)])"

declare str_nat.simps [simp del]

definition str_int :: "int \<Rightarrow> string" where
  "str_int i = (if i < 0 then ''-'' @ str_nat (nat (- i)) else str_nat (nat i))"

text \<open>\<open>d.get(k, default)\<close> on a dictionary of texts, and the slice \<open>xs[i:j]\<close>.\<close>

type_synonym dict = "(string \<times> string) list"

definition get :: "dict \<Rightarrow> string \<Rightarrow> string \<Rightarrow> string" where
  "get d k dflt = (case map_of d k of None \<Rightarrow> dflt | Some v \<Rightarrow> v)"

definition py_slice :: "'a list \<Rightarrow> int \<Rightarrow> int \<Rightarrow> 'a list" where
  "py_slice xs i j =
     (let n = int (length xs);
          lo = (if i < 0 then max (i + n) 0 else min i n);
          hi = (if j < 0 then max (j + n) 0 else min j n)
      in take (nat (hi - lo)) (drop (nat lo) xs))"

section \<open>Provider client\<close>

text \<open>
  \<open>VirtualNumberAPI\<close>. Every method builds one request, hands it to the \<open>requests\<close>
  library inside a \<open>try\<close>, and returns either the parsed body or the dictionary
  \<open>{"success": False, "error": str(e)}\<close>.

  The library is the environment: \<open>send\<close> tells, for a request, which of the three calls
  in the \<open>try\<close> block raised a \<open>RequestException\<close> (with the text \<open>str(e)\<close>), or the body
  that \<open>response.json()\<close> returned. Transport errors and timeouts are raised by the verb,
  \<open>HTTPError\<close> by \<open>raise_for_status\<close>, the library's \<open>JSONDecodeError\<close> by \<open>json\<close>;
  all three are subclasses of \<open>RequestException\<close>. The \<open>logger.error\<close> line of each
  handler writes to the process log only and is left out.

  A body is read by its callers through \<open>get('success')\<close>, \<open>get('data', ...)\<close> and
  \<open>get('error', ...)\<close>: \<open>Success d\<close> is a body whose success flag is truthy, with data
  payload \<open>d\<close>; \<open>Failure e\<close> is a body whose success flag is falsy or absent. Its
  error field is only ever formatted into a reply: \<open>e\<close> is \<open>None\<close> when the body has no
  \<open>error\<close> key, so that \<open>get\<close> gives the caller's default, and otherwise \<open>Some\<close> of the
  text that formatting the field's value gives (for a JSON \<open>null\<close> the text \<open>None\<close>).
\<close>

datatype 'a api_result = Success 'a | Failure "string option"

datatype verb = GET | POST | DELETE

record request =
  req_verb :: verb
  req_url :: string
  req_headers :: dict
  req_json :: "dict option"
  req_timeout :: nat

datatype 'a http_outcome =
    VerbRaised string
  | StatusRaised string
  | JsonRaised string
  | Json "'a api_result"

type_synonym 'a transport = "request \<Rightarrow> 'a http_outcome"

record api =
  api_key :: string
  base_url :: string
  headers :: dict

definition RAPIDAPI_HOST :: string where
  "RAPIDAPI_HOST = ''virtual-number.p.rapidapi.com''"

definition VirtualNumberAPI :: "string \<Rightarrow> api" where
  "VirtualNumberAPI key =
     \<lparr>api_key = key,
      base_url = ''https://virtual-number.p.rapidapi.com/api/v1/e-sim'',
      headers = [(''x-rapidapi-host'', RAPIDAPI_HOST),
                 (''x-rapidapi-key'', key),
                 (''Content-Type'', ''application/json'')]\<rparr>"

text \<open>
  The \<open>try\<close>/\<open>except\<close> of a method: the request is issued once; the result comes with
  the list of the requests that were issued.
\<close>

definition attempt :: "'a transport \<Rightarrow> request \<Rightarrow> 'a api_result \<times> request list" where
  "attempt send req =
     (case send req of
        Json body \<Rightarrow> (body, [req])
      | VerbRaised e \<Rightarrow> (Failure (Some e), [req])
      | StatusRaised e \<Rightarrow> (Failure (Some e), [req])
      | JsonRaised e \<Rightarrow> (Failure (Some e), [req]))"

definition all_countries_request :: "api \<Rightarrow> request" where
  "all_countries_request self =
     \<lparr>req_verb = GET, req_url = base_url self @ ''/all-countries'',
      req_headers = headers self, req_json = None, req_timeout = 10\<rparr>"

definition get_all_countries :: "api \<Rightarrow> 'a transport \<Rightarrow> 'a api_result \<times> request list" where
  "get_all_countries self send = attempt send (all_countries_request self)"

definition purchase_request :: "api \<Rightarrow> string \<Rightarrow> string \<Rightarrow> request" where
  "purchase_request self country_code service =
     \<lparr>req_verb = POST, req_url = base_url self @ ''/purchase'',
      req_headers = headers self,
      req_json = Some [(''country_code'', country_code), (''service'', service)],
      req_timeout = 10\<rparr>"

definition purchase_number ::
  "api \<Rightarrow> 'a transport \<Rightarrow> string \<Rightarrow> string \<Rightarrow> 'a api_result \<times> request list" where
  "purchase_number self send country_code service =
     attempt send (purchase_request self country_code service)"

definition sms_request :: "api \<Rightarrow> string \<Rightarrow> request" where
  "sms_request self number_id =
     \<lparr>req_verb = GET, req_url = base_url self @ ''/sms/'' @ number_id,
      req_headers = headers self, req_json = None, req_timeout = 10\<rparr>"

definition get_sms :: "api \<Rightarrow> 'a transport \<Rightarrow> string \<Rightarrow> 'a api_result \<times> request list" where
  "get_sms self send number_id = attempt send (sms_request self number_id)"

definition active_numbers_request :: "api \<Rightarrow> request" where
  "active_numbers_request self =
     \<lparr>req_verb = GET, req_url = base_url self @ ''/active-numbers'',
      req_headers = headers self, req_json = None, req_timeout = 10\<rparr>"

definition get_active_numbers :: "api \<Rightarrow> 'a transport \<Rightarrow> 'a api_result \<times> request list" where
  "get_active_numbers self send = attempt send (active_numbers_request self)"

definition cancel_request :: "api \<Rightarrow> string \<Rightarrow> request" where
  "cancel_request self number_id =
     \<lparr>req_verb = DELETE, req_url = base_url self @ ''/cancel/'' @ number_id,
      req_headers = headers self, req_json = None, req_timeout = 10\<rparr>"

definition cancel_number :: "api \<Rightarrow> 'a transport \<Rightarrow> string \<Rightarrow> 'a api_result \<times> request list" where
  "cancel_number self send number_id = attempt send (cancel_request self number_id)"

section \<open>Bot state\<close>

text \<open>
  The two module-level dictionaries, and the per-user dictionary \<open>context.user_data\<close>
  that the chat framework keeps for the handlers. \<open>purchased_numbers\<close> is iterated by the
  poll loop, so it keeps Python's insertion order: an association list, assigned to with
  \<open>AList.update\<close> (in place for a key that is there, at the end for a new one).

  A value of \<open>user_data_store\<close> is a dictionary with the optional keys \<open>username\<close>,
  \<open>first_name\<close>, \<open>join_date\<close> (always written together) and \<open>numbers\<close>.
\<close>

type_synonym user_id = int

record profile =
  username :: "string option"
  first_name :: string
  join_date :: string

record user_entry =
  profile :: "profile option"
  numbers :: "string list option"

record number_info =
  user_id :: user_id
  country_code :: string
  phone_number :: string
  purchase_date :: string
  status :: string

record user_data =
  countries :: "dict list option"
  country_page :: "int option"

record state =
  user_data_store :: "user_id \<rightharpoonup> user_entry"
  purchased_numbers :: "(string \<times> number_info) list"
  context_user_data :: "user_id \<Rightarrow> user_data"

definition init :: state where
  "init = \<lparr>user_data_store = Map.empty, purchased_numbers = [],
            context_user_data = (\<lambda>_. \<lparr>countries = None, country_page = None\<rparr>)\<rparr>"

section \<open>Chat platform\<close>

text \<open>
  An update carries the sending user. \<open>update.message\<close> is there for a command message
  and is \<open>None\<close> for a button press, and also for a command in an edited message, which
  the command handlers receive as well; \<open>update.callback_query\<close> is there for a button
  press and is \<open>None\<close> otherwise. Calling a method on \<open>None\<close> raises
  \<open>AttributeError\<close>.

  A handler's outcome is the list of messages it sent or edited, the provider requests it
  issued, and the exception it ended with, if any.
\<close>

record tg_user =
  tg_id :: user_id
  tg_username :: "string option"
  tg_first_name :: string

record update =
  effective_user :: tg_user
  has_message :: bool
  has_callback_query :: bool

record button =
  btn_text :: string
  callback_data :: string

type_synonym keyboard = "button list list"

record outgoing =
  msg_text :: string
  reply_markup :: "keyboard option"
  parse_mode :: "string option"

datatype action = Reply outgoing | Edit outgoing

datatype py_error = AttributeError

record outcome =
  actions :: "action list"
  requests :: "request list"
  raised :: "py_error option"

definition InlineKeyboardButton :: "string \<Rightarrow> string \<Rightarrow> button" where
  "InlineKeyboardButton t d = \<lparr>btn_text = t, callback_data = d\<rparr>"

definition plain :: "string \<Rightarrow> outgoing" where
  "plain t = \<lparr>msg_text = t, reply_markup = None, parse_mode = None\<rparr>"

definition markdown :: "string \<Rightarrow> keyboard option \<Rightarrow> outgoing" where
  "markdown t kb = \<lparr>msg_text = t, reply_markup = kb, parse_mode = Some ''Markdown''\<rparr>"

definition finished :: "action list \<Rightarrow> request list \<Rightarrow> outcome" where
  "finished as rs = \<lparr>actions = as, requests = rs, raised = None\<rparr>"

definition raising :: "action list \<Rightarrow> request list \<Rightarrow> py_error \<Rightarrow> outcome" where
  "raising as rs e = \<lparr>actions = as, requests = rs, raised = Some e\<rparr>"

text \<open>\<open>await update.message.reply_text(m)\<close> as the last statement of a handler.\<close>

definition respond :: "update \<Rightarrow> outgoing \<Rightarrow> request list \<Rightarrow> outcome" where
  "respond upd m rs =
     (if has_message upd then finished [Reply m] rs else raising [] rs AttributeError)"

section \<open>Handlers\<close>

definition welcome_message :: "string \<Rightarrow> string" where
  "welcome_message name =
     ''\<newline>'' @ rocket @ '' *Welcome to Virtual Number Bot, '' @ name @
     ''!*\<newline>'' @ ''\<newline>'' @ ''*Available Features:*\<newline>'' @ bullet @
     '' '' @ mobile_phone @
     '' Get virtual numbers from multiple countries\<newline>'' @ bullet @ '' '' @
     incoming_envelope @ '' Receive SMS messages on Telegram\<newline>'' @ bullet @
     '' '' @ earth_globe @ '' 100+ countries available\<newline>'' @ bullet @ '' '' @
     high_voltage @ '' Real-time SMS forwarding\<newline>'' @ ''\<newline>'' @
     ''*Quick Commands:*\<newline>'' @ ''/start - Show this menu\<newline>'' @
     ''/countries - Browse available countries\<newline>'' @
     ''/purchase - Buy a new virtual number\<newline>'' @
     ''/mysms - Check received SMS\<newline>'' @
     ''/help - Get help information\<newline>'' @ ''\<newline>'' @
     ''Select an option below to get started:\<newline>''"

definition start_keyboard :: keyboard where
  "start_keyboard =
     [[InlineKeyboardButton (mobile_phone @ '' List Countries'') ''list_countries''],
      [InlineKeyboardButton (shopping_trolley @ '' Purchase Number'') ''purchase_menu''],
      [InlineKeyboardButton (incoming_envelope @ '' My SMS'') ''my_sms''],
      [InlineKeyboardButton (question_mark @ '' Help'') ''help'']]"

text \<open>
  \<open>start\<close> assigns a new dictionary to \<open>user_data_store[user.id]\<close>, whatever was
  there, and then replies. \<open>now\<close> is \<open>datetime.now().isoformat()\<close>.
\<close>

definition start :: "update \<Rightarrow> string \<Rightarrow> state \<Rightarrow> outcome \<times> state" where
  "start upd now s =
     (let user = effective_user upd;
          s' = s\<lparr>user_data_store := (user_data_store s)(tg_id user \<mapsto>
                 \<lparr>profile = Some \<lparr>username = tg_username user,
                                   first_name = tg_first_name user,
                                   join_date = now\<rparr>,
                  numbers = None\<rparr>)\<rparr>
      in (respond upd (markdown (welcome_message (tg_first_name user)) (Some start_keyboard)) [],
          s'))"

definition help_text :: string where
  "help_text =
     ''\<newline>'' @ robot_face @ '' *Virtual Number Bot - Help Guide*\<newline>'' @
     ''\<newline>'' @ ''*Available Commands:*\<newline>'' @
     ''/start - Start the bot\<newline>'' @
     ''/countries - Show all available countries\<newline>'' @
     ''/purchase - Purchase a virtual number\<newline>'' @
     ''/mysms - View received SMS\<newline>'' @
     ''/active - View active numbers\<newline>'' @
     ''/cancel - Cancel a virtual number\<newline>'' @
     ''/help - Show this help message\<newline>'' @ ''\<newline>'' @
     ''*How It Works:*\<newline>'' @ ''1. Select a country from the list\<newline>'' @
     ''2. Purchase a virtual number\<newline>'' @
     ''3. Use the number for SMS verification\<newline>'' @
     ''4. Receive SMS directly in Telegram\<newline>'' @
     ''5. SMS are forwarded in real-time\<newline>'' @ ''\<newline>'' @
     ''*Important Notes:*\<newline>'' @ bullet @
     '' Numbers are rented and have expiration\<newline>'' @ bullet @
     '' SMS forwarding may have a slight delay\<newline>'' @ bullet @
     '' Some services may block virtual numbers\<newline>'' @ bullet @
     '' Check country compatibility before purchase\<newline>'' @ ''\<newline>'' @
     ''*Support:* Contact @admin for assistance\<newline>''"

definition help_command :: "update \<Rightarrow> state \<Rightarrow> outcome \<times> state" where
  "help_command upd s = (respond upd (markdown help_text None) [], s)"

text \<open>
  \<open>show_countries_page\<close> reads the listing cached in \<open>context.user_data\<close> and edits
  the given message. The page is a Python integer.
\<close>

definition country_button :: "dict \<Rightarrow> button" where
  "country_button country =
     InlineKeyboardButton
       (get country ''emoji'' globe_meridians @ '' '' @ get country ''country_name'' ''Unknown'' @
        '' - $'' @ get country ''price'' ''N/A'')
       (''select_country_'' @ get country ''country_code'' [])"

definition previous_button :: "int \<Rightarrow> button" where
  "previous_button page =
     InlineKeyboardButton (left_arrow @ '' Previous'') (''country_page_'' @ str_int (page - 1))"

definition next_button :: "int \<Rightarrow> button" where
  "next_button page =
     InlineKeyboardButton (''Next '' @ right_arrow) (''country_page_'' @ str_int (page + 1))"

definition main_menu_button :: button where
  "main_menu_button = InlineKeyboardButton (house @ '' Main Menu'') ''main_menu''"

text \<open>\<open>context.user_data.get('countries', [])\<close>\<close>

definition cached_countries :: "user_data \<Rightarrow> dict list" where
  "cached_countries ud = (case countries ud of None \<Rightarrow> [] | Some l \<Rightarrow> l)"

definition show_countries_page :: "update \<Rightarrow> int \<Rightarrow> state \<Rightarrow> outcome \<times> state" where
  "show_countries_page upd page s =
     (let cs = cached_countries (context_user_data s (tg_id (effective_user upd)));
          items_per_page = 10;
          start_idx = page * items_per_page;
          end_idx = start_idx + items_per_page;
          current_countries = py_slice cs start_idx end_idx;
          keyboard = map (\<lambda>country. [country_button country]) current_countries;
          nav_buttons = (if page > 0 then [previous_button page] else []) @
                        (if end_idx < int (length cs) then [next_button page] else []);
          keyboard = (if nav_buttons \<noteq> [] then keyboard @ [nav_buttons] else keyboard);
          keyboard = keyboard @ [[main_menu_button]];
          t = earth_globe @ '' *Available Countries* ('' @ str_int (int (length cs)) @
              '' total)\<newline>'' @ ''Page '' @ str_int (page + 1) @ '' of '' @
              str_int (((int (length cs) - 1) div items_per_page) + 1) @ ''\<newline>'' @
              ''\<newline>'' @ ''Select a country to purchase a number:''
      in (finished [Edit (markdown t (Some keyboard))] [], s))"

text \<open>What a handler did before it called another one comes first in the outcome.\<close>

definition after :: "action list \<Rightarrow> request list \<Rightarrow> outcome \<Rightarrow> outcome" where
  "after as rs out = out\<lparr>actions := as @ actions out, requests := rs @ requests out\<rparr>"

definition list_countries_command ::
  "api \<Rightarrow> dict list transport \<Rightarrow> update \<Rightarrow> state \<Rightarrow> outcome \<times> state" where
  "list_countries_command client send upd s =
     (if \<not> has_message upd then (raising [] [] AttributeError, s)
      else
        let fetching = Reply (plain (circle_arrows @ '' Fetching available countries...''));
            (result, rs) = get_all_countries client send
        in case result of
             Success cs \<Rightarrow>
               if cs = [] then
                 (finished [fetching,
                    Edit (plain (cross_mark @ '' No countries available at the moment.''))] rs, s)
               else
                 let uid = tg_id (effective_user upd);
                     page = 0;
                     s' = s\<lparr>context_user_data := (context_user_data s)
                            (uid := (context_user_data s uid)
                               \<lparr>countries := Some cs, country_page := Some page\<rparr>)\<rparr>;
                     (shown, s'') = show_countries_page upd page s'
                 in (after [fetching] rs shown, s'')
           | Failure e \<Rightarrow>
               let error_msg = (case e of None \<Rightarrow> ''Unknown error'' | Some m \<Rightarrow> m)
               in (finished [fetching,
                     Edit (plain (cross_mark @ '' Error fetching countries: '' @ error_msg))] rs, s))"

text \<open>
  \<open>purchase_for_country\<close> first replies through \<open>update.callback_query.message\<close>, then
  calls the provider. The data payload of a successful purchase is read with
  \<open>get('number_id')\<close> and \<open>get('phone_number')\<close>. The model covers the payloads that
  carry both as JSON strings, the form in which a number-id can be named by the text
  argument of \<open>/cancel\<close>; a payload in which one of them is missing, \<open>null\<close> or not a
  string is outside the model.
\<close>

record purchase_data =
  data_number_id :: string
  data_phone_number :: string

definition purchased_text :: "string \<Rightarrow> string \<Rightarrow> string \<Rightarrow> string" where
  "purchased_text phone code number_id =
        check_mark @ '' *Number Purchased Successfully!*\<newline>'' @ ''\<newline>'' @
        mobile_phone @ '' *Number:* '' @ phone @ ''\<newline>'' @ earth_globe @
        '' *Country:* '' @ code @ ''\<newline>'' @ squared_id @ '' *ID:* '' @ number_id @
        ''\<newline>'' @ ''\<newline>'' @ ''*Instructions:*\<newline>'' @
        ''1. Use this number for SMS verification\<newline>'' @
        ''2. SMS will be forwarded here automatically\<newline>'' @
        ''3. Use /mysms to check messages\<newline>'' @ ''4. Use /cancel '' @ number_id @
        '' to cancel\<newline>'' @ ''\<newline>'' @ incoming_envelope @
        '' SMS forwarding is now active!''"

definition purchase_for_country ::
  "api \<Rightarrow> purchase_data transport \<Rightarrow> update \<Rightarrow> string \<Rightarrow> string \<Rightarrow> state \<Rightarrow> outcome \<times> state" where
  "purchase_for_country client send upd code now s =
     (if \<not> has_callback_query upd then (raising [] [] AttributeError, s)
      else
        let uid = tg_id (effective_user upd);
            purchasing = Reply (plain (circle_arrows @ '' Purchasing number for '' @ code @ ''...''));
            (result, rs) = purchase_number client send code ''telegram''
        in case result of
             Success number_data \<Rightarrow>
               let number_id = data_number_id number_data;
                   phone = data_phone_number number_data;
                   registry = AList.update number_id
                     \<lparr>user_id = uid, country_code = code, phone_number = phone,
                      purchase_date = now, status = ''active''\<rparr> (purchased_numbers s);
                   entry = (case user_data_store s uid of
                              None \<Rightarrow> \<lparr>profile = None, numbers = None\<rparr> | Some e \<Rightarrow> e);
                   owned = (case numbers entry of None \<Rightarrow> [] | Some ns \<Rightarrow> ns);
                   store = (user_data_store s)
                     (uid \<mapsto> entry\<lparr>numbers := Some (owned @ [number_id])\<rparr>)
               in (finished [purchasing,
                     Edit (markdown (purchased_text phone code number_id) None)] rs,
                   s\<lparr>user_data_store := store, purchased_numbers := registry\<rparr>)
           | Failure e \<Rightarrow>
               let error_msg = (case e of None \<Rightarrow> ''Purchase failed'' | Some m \<Rightarrow> m)
               in (finished [purchasing,
                     Edit (plain (cross_mark @ '' Purchase failed: '' @ error_msg))] rs, s))"

definition purchase_keyboard :: keyboard where
  "purchase_keyboard =
     [[InlineKeyboardButton (flag_us @ '' USA (+1)'') ''select_country_US''],
      [InlineKeyboardButton (flag_gb @ '' UK (+44)'') ''select_country_GB''],
      [InlineKeyboardButton (flag_ca @ '' Canada (+1)'') ''select_country_CA''],
      [InlineKeyboardButton (flag_au @ '' Australia (+61)'') ''select_country_AU''],
      [InlineKeyboardButton (earth_globe @ '' Browse All Countries'') ''list_countries''],
      [InlineKeyboardButton (back_arrow @ '' Back'') ''main_menu'']]"

text \<open>\<open>context.args\<close> is the list of the command's arguments (empty or \<open>None\<close>: no argument).\<close>

definition purchase_number_command ::
  "api \<Rightarrow> purchase_data transport \<Rightarrow> update \<Rightarrow> string list \<Rightarrow> string \<Rightarrow> state
     \<Rightarrow> outcome \<times> state" where
  "purchase_number_command client send upd args now s =
     (case args of
        code # _ \<Rightarrow> purchase_for_country client send upd code now s
      | [] \<Rightarrow>
         (respond upd
            (markdown (shopping_trolley @ '' *Purchase Virtual Number*\<newline>'' @ ''\<newline>'' @
                       ''Select a country or browse all:'') (Some purchase_keyboard)) [],
          s))"

definition sms_button :: "(string \<times> number_info) list \<Rightarrow> string \<Rightarrow> keyboard" where
  "sms_button registry number_id =
     (case map_of registry number_id of
        None \<Rightarrow> []
      | Some info \<Rightarrow>
          [[InlineKeyboardButton (mobile_phone @ '' '' @ phone_number info)
              (''view_sms_'' @ number_id)]])"

definition my_sms_command :: "update \<Rightarrow> state \<Rightarrow> outcome \<times> state" where
  "my_sms_command upd s =
     (let uid = tg_id (effective_user upd);
          none = plain (open_mailbox @ '' You don't have any active numbers.'')
      in case user_data_store s uid of
           None \<Rightarrow> (respond upd none [], s)
         | Some entry \<Rightarrow>
            (case numbers entry of
               None \<Rightarrow> (respond upd none [], s)
             | Some user_numbers \<Rightarrow>
                 if user_numbers = [] then (respond upd none [], s)
                 else
                   let keyboard = concat (map (sms_button (purchased_numbers s))
                                            (take 5 user_numbers))
                   in if keyboard = [] then
                        (respond upd (plain (open_mailbox @ '' No active numbers found.'')) [], s)
                      else
                        (respond upd
                           (markdown (incoming_envelope @ '' *My SMS Messages*\<newline>'' @
                                      ''\<newline>'' @ ''Select a number to view received SMS:'')
                              (Some (keyboard @
                                 [[InlineKeyboardButton (circle_arrows @ '' Refresh'') ''refresh_sms''],
                                  [main_menu_button]]))) [],
                         s)))"

text \<open>
  \<open>active_numbers_command\<close>. The first loop collects the records of the caller's numbers
  that are registered with status \<open>active\<close>. The second loop renders each record, and
  under \<open>ID\<close> it formats the variable \<open>number_id\<close>: the loop variable of the first loop,
  which holds the last element of the caller's list once that loop is over (the list is
  not empty when a record was collected).
\<close>

fun active_of :: "(string \<times> number_info) list \<Rightarrow> string list \<Rightarrow> number_info list" where
  "active_of registry [] = []"
| "active_of registry (number_id # rest) =
     (case map_of registry number_id of
        None \<Rightarrow> active_of registry rest
      | Some info \<Rightarrow>
          if status info = ''active'' then info # active_of registry rest
          else active_of registry rest)"

definition active_entry :: "number_info \<Rightarrow> string \<Rightarrow> string" where
  "active_entry num number_id =
        bullet @ '' *Number:* '' @ phone_number num @ ''\<newline>'' @
        ''  *Country:* '' @ country_code num @ ''\<newline>'' @ ''  *ID:* `'' @
        number_id @ ''`\<newline>'' @ ''  *Since:* '' @ take 10 (purchase_date num) @
        ''\<newline>'' @ ''\<newline>''"

definition active_numbers_command :: "update \<Rightarrow> state \<Rightarrow> outcome \<times> state" where
  "active_numbers_command upd s =
     (let uid = tg_id (effective_user upd);
          none = plain (mobile_phone @ '' You don't have any active numbers.'')
      in case user_data_store s uid of
           None \<Rightarrow> (respond upd none [], s)
         | Some entry \<Rightarrow>
            (case numbers entry of
               None \<Rightarrow> (respond upd none [], s)
             | Some user_numbers \<Rightarrow>
                 let active_numbers = active_of (purchased_numbers s) user_numbers
                 in if active_numbers = [] then (respond upd none [], s)
                    else
                      let number_id = last user_numbers;
                          message = mobile_phone @ '' *Your Active Numbers*\<newline>'' @ ''\<newline>'' @
                                    concat (map (\<lambda>num. active_entry num number_id) active_numbers) @
                                    ''Use /cancel <number_id> to cancel a number.''
                      in (respond upd (markdown message None) [], s)))"

text \<open>
  \<open>cancel_number_command\<close>: usage without an argument; then the check that the id is in
  the caller's list; then the check that it is registered; then the provider call, whose
  success sets the status.
\<close>

definition not_yours_text :: string where
  "not_yours_text = cross_mark @ '' Number not found or doesn't belong to you.''"

definition not_found_text :: string where
  "not_found_text = cross_mark @ '' Number not found.''"

definition cancelled_text :: "string \<Rightarrow> string" where
  "cancelled_text number_id = check_mark @ '' Number '' @ number_id @ '' cancelled successfully.''"

definition cancel_number_command ::
  "api \<Rightarrow> 'a transport \<Rightarrow> update \<Rightarrow> string list \<Rightarrow> state \<Rightarrow> outcome \<times> state" where
  "cancel_number_command client send upd args s =
     (case args of
        [] \<Rightarrow> (respond upd (plain ''Usage: /cancel <number_id>'') [], s)
      | number_id # _ \<Rightarrow>
          let uid = tg_id (effective_user upd)
          in if (case user_data_store s uid of
                   None \<Rightarrow> True
                 | Some entry \<Rightarrow>
                     (case numbers entry of
                        None \<Rightarrow> True
                      | Some user_numbers \<Rightarrow> number_id \<notin> set user_numbers))
             then (respond upd (plain not_yours_text) [], s)
             else if map_of (purchased_numbers s) number_id = None
             then (respond upd (plain not_found_text) [], s)
             else
               let (result, rs) = cancel_number client send number_id
               in (case result of
                    Success _ \<Rightarrow>
                      (respond upd (plain (cancelled_text number_id)) rs,
                       s\<lparr>purchased_numbers :=
                           AList.map_entry number_id (\<lambda>info. info\<lparr>status := ''cancelled''\<rparr>)
                             (purchased_numbers s)\<rparr>)
                  | Failure e \<Rightarrow>
                      let error_msg = (case e of None \<Rightarrow> ''Cancellation failed'' | Some m \<Rightarrow> m)
                      in (respond upd (plain (cross_mark @ '' Cancellation failed: '' @ error_msg)) rs,
                          s)))"

definition sms_text :: "dict \<Rightarrow> string" where
  "sms_text msg =
     (let sender = get msg ''sender'' ''Unknown'';
          message = get msg ''message'' [];
          timestamp = get msg ''timestamp'' []
      in ''*From:* '' @ sender @ ''\<newline>'' @ ''*Time:* '' @ timestamp @
         ''\<newline>'' @ ''*Message:* '' @ message @ ''\<newline>'' @
         concat (replicate 30 box_horizontal) @ ''\<newline>'')"

definition view_sms_messages ::
  "api \<Rightarrow> dict list transport \<Rightarrow> update \<Rightarrow> string \<Rightarrow> state \<Rightarrow> outcome \<times> state" where
  "view_sms_messages client send upd number_id s =
     (let (result, rs) = get_sms client send number_id;
          t = (case result of
                 Success messages \<Rightarrow>
                   if messages \<noteq> [] then
                     incoming_envelope @ '' *SMS Messages for '' @ number_id @ ''*\<newline>'' @
                     ''\<newline>'' @ concat (map sms_text (take 10 messages))
                   else open_mailbox @ '' No SMS messages found for '' @ number_id
               | Failure e \<Rightarrow>
                   cross_mark @ '' Error fetching SMS: '' @
                   (case e of None \<Rightarrow> ''Unknown error'' | Some m \<Rightarrow> m));
          keyboard =
            [[InlineKeyboardButton (circle_arrows @ '' Refresh'') (''view_sms_'' @ number_id)],
             [InlineKeyboardButton (mobile_phone @ '' My Numbers'') ''my_sms''],
             [main_menu_button]]
      in if has_callback_query upd then (finished [Edit (markdown t (Some keyboard))] rs, s)
         else (raising [] rs AttributeError, s))"

section \<open>Poll loop\<close>

text \<open>
  The body of \<open>check_sms_scheduler\<close> walks a snapshot of the registry's items; for an
  active number it fetches the messages, and the loop over the fetched messages has the
  body \<open>pass\<close>. \<open>check_sms_scheduler\<close> below is this body: what runs when the
  coroutine is awaited.
\<close>

fun forward_messages :: "dict list \<Rightarrow> state \<Rightarrow> state" where
  "forward_messages [] s = s"
| "forward_messages (msg # msgs) s = forward_messages msgs s"

fun poll_numbers ::
  "api \<Rightarrow> dict list transport \<Rightarrow> (string \<times> number_info) list \<Rightarrow> state \<Rightarrow> request list \<times> state" where
  "poll_numbers client send [] s = ([], s)"
| "poll_numbers client send ((number_id, info) # rest) s =
     (if status info = ''active'' then
        (let (result, rs) = get_sms client send number_id;
             s' = (case result of
                     Success messages \<Rightarrow> forward_messages messages s
                   | Failure e \<Rightarrow> s);
             (rs', s'') = poll_numbers client send rest s'
         in (rs @ rs', s''))
      else poll_numbers client send rest s)"

definition check_sms_scheduler :: "api \<Rightarrow> dict list transport \<Rightarrow> state \<Rightarrow> outcome \<times> state" where
  "check_sms_scheduler client send s =
     (let (rs, s') = poll_numbers client send (purchased_numbers s) s
      in (finished [] rs, s'))"

text \<open>
  \<open>check_sms_scheduler\<close> is an \<open>async def\<close>: a call of it builds a coroutine object
  and runs nothing of the body. \<open>main\<close> gives the function to a
  \<open>BackgroundScheduler\<close> as an interval job; every minute a worker thread of the
  scheduler calls it with the application and drops what the call returns. Nothing
  awaits the coroutine, so a firing of the job issues no request and touches no state.
\<close>

datatype coroutine = Coroutine "state \<Rightarrow> outcome \<times> state"

definition interval_job :: "api \<Rightarrow> dict list transport \<Rightarrow> state \<Rightarrow> outcome \<times> state" where
  "interval_job client send s =
     (let retval = Coroutine (check_sms_scheduler client send)
      in (finished [] [], s))"

section \<open>Runs of the bot\<close>

text \<open>
  One event is one invocation of a handler by the chat framework (a command, or a button
  press that the dispatcher hands to the same handler) or one firing of the scheduler's
  interval job, together with what the environment supplies to it: the update, the
  arguments, the clock and the provider's answers.
\<close>

datatype event =
    Start update string
  | Help update
  | ListCountries "dict list transport" update
  | ShowCountriesPage update int
  | PurchaseCommand "purchase_data transport" update "string list" string
  | PurchaseForCountry "purchase_data transport" update string string
  | MySms update
  | ActiveNumbers update
  | CancelNumber "unit transport" update "string list"
  | ViewSms "dict list transport" update string
  | CheckSms "dict list transport"

fun handle :: "api \<Rightarrow> event \<Rightarrow> state \<Rightarrow> outcome \<times> state" where
  "handle client (Start upd now) s = start upd now s"
| "handle client (Help upd) s = help_command upd s"
| "handle client (ListCountries send upd) s = list_countries_command client send upd s"
| "handle client (ShowCountriesPage upd page) s = show_countries_page upd page s"
| "handle client (PurchaseCommand send upd args now) s =
     purchase_number_command client send upd args now s"
| "handle client (PurchaseForCountry send upd code now) s =
     purchase_for_country client send upd code now s"
| "handle client (MySms upd) s = my_sms_command upd s"
| "handle client (ActiveNumbers upd) s = active_numbers_command upd s"
| "handle client (CancelNumber send upd args) s = cancel_number_command client send upd args s"
| "handle client (ViewSms send upd number_id) s = view_sms_messages client send upd number_id s"
| "handle client (CheckSms send) s = interval_job client send s"

fun run :: "api \<Rightarrow> event list \<Rightarrow> state \<Rightarrow> state" where
  "run client [] s = s"
| "run client (ev # evs) s = run client evs (snd (handle client ev s))"

section \<open>Notions used by the properties\<close>

text \<open>
  The ownership test of \<open>cancel_number_command\<close>, read positively: the user has a
  record, the record has a list of numbers, and the id is in it.
\<close>

definition owns :: "state \<Rightarrow> user_id \<Rightarrow> string \<Rightarrow> bool" where
  "owns s uid number_id =
     (case user_data_store s uid of
        None \<Rightarrow> False
      | Some entry \<Rightarrow>
          (case numbers entry of None \<Rightarrow> False | Some user_numbers \<Rightarrow> number_id \<in> set user_numbers))"

text \<open>The provider's answer to a request is a body with a truthy success flag.\<close>

definition accepted :: "'a http_outcome \<Rightarrow> bool" where
  "accepted out = (case out of Json (Success d) \<Rightarrow> True | _ \<Rightarrow> False)"

text \<open>A cancel command succeeded: its one reply is the confirmation for the id.\<close>

definition cancel_succeeded :: "outcome \<Rightarrow> string \<Rightarrow> bool" where
  "cancel_succeeded out number_id =
     (actions out = [Reply (plain (cancelled_text number_id))] \<and> raised out = None)"

text \<open>
  The condition under which the specification lets a cancel succeed: the id is
  registered, its recorded owner is the caller and its status is active.
\<close>

definition spec_cancel_condition :: "state \<Rightarrow> user_id \<Rightarrow> string \<Rightarrow> bool" where
  "spec_cancel_condition s uid number_id =
     (case map_of (purchased_numbers s) number_id of
        None \<Rightarrow> False
      | Some info \<Rightarrow> user_id info = uid \<and> status info = ''active'')"

text \<open>The recorded owner of a number-id, if it is registered.\<close>

definition owner :: "state \<Rightarrow> string \<Rightarrow> user_id option" where
  "owner s number_id = map_option user_id (map_of (purchased_numbers s) number_id)"

text \<open>
  The number-id that the provider hands out in an event: the event is a purchase that
  reaches the provider, and the answer is a success body carrying that id.
\<close>

definition issued_by :: "api \<Rightarrow> purchase_data transport \<Rightarrow> update \<Rightarrow> string \<Rightarrow> string option" where
  "issued_by client send upd code =
     (if has_callback_query upd then
        (case send (purchase_request client code ''telegram'') of
           Json (Success d) \<Rightarrow> Some (data_number_id d)
         | _ \<Rightarrow> None)
      else None)"

fun issued :: "api \<Rightarrow> event \<Rightarrow> string option" where
  "issued client (PurchaseForCountry send upd code now) = issued_by client send upd code"
| "issued client (PurchaseCommand send upd (code # rest) now) = issued_by client send upd code"
| "issued client ev = None"

text \<open>The keyboard of the one message that a handler edited.\<close>

definition edited_keyboard :: "outcome \<Rightarrow> keyboard" where
  "edited_keyboard out =
     (case actions out of
        [Edit m] \<Rightarrow> (case reply_markup m of None \<Rightarrow> [] | Some kb \<Rightarrow> kb)
      | _ \<Rightarrow> [])"

section \<open>Scenarios\<close>

text \<open>
  Two users, each writing a command (\<open>update.message\<close> is there), pressing a button
  (\<open>update.callback_query\<close> is there) or editing a command they wrote (neither is
  there); a client; and provider answers.
\<close>

definition alice :: tg_user where
  "alice = \<lparr>tg_id = 1, tg_username = Some ''alice'', tg_first_name = ''Alice''\<rparr>"

definition bob :: tg_user where
  "bob = \<lparr>tg_id = 2, tg_username = None, tg_first_name = ''Bob''\<rparr>"

definition command :: "tg_user \<Rightarrow> update" where
  "command u = \<lparr>effective_user = u, has_message = True, has_callback_query = False\<rparr>"

definition press :: "tg_user \<Rightarrow> update" where
  "press u = \<lparr>effective_user = u, has_message = False, has_callback_query = True\<rparr>"

definition edited :: "tg_user \<Rightarrow> update" where
  "edited u = \<lparr>effective_user = u, has_message = False, has_callback_query = False\<rparr>"

definition api_client :: api where
  "api_client = VirtualNumberAPI ''key''"

definition sells :: "string \<Rightarrow> string \<Rightarrow> purchase_data transport" where
  "sells number_id phone =
     (\<lambda>req. Json (Success \<lparr>data_number_id = number_id, data_phone_number = phone\<rparr>))"

definition agrees :: "unit transport" where
  "agrees = (\<lambda>req. Json (Success ()))"

definition times_out :: "unit transport" where
  "times_out = (\<lambda>req. VerbRaised ''Read timed out.'')"

definition no_messages :: "dict list transport" where
  "no_messages = (\<lambda>req. Json (Success []))"

text \<open>Alice bought number 123.\<close>

definition bought :: state where
  "bought = run api_client
     [PurchaseForCountry (sells ''123'' ''+15550123'') (press alice) ''US'' ''2024-05-01T10:00:00'']
     init"

text \<open>Alice bought number 123 and cancelled it.\<close>

definition bought_cancelled :: state where
  "bought_cancelled = run api_client [CancelNumber agrees (command alice) [''123'']] bought"

text \<open>Alice bought number 123 and then sent \<open>/start\<close>.\<close>

definition bought_started :: state where
  "bought_started = run api_client [Start (command alice) ''2024-05-01T10:05:00''] bought"

text \<open>Alice bought numbers 111 and 222 and cancelled 222.\<close>

definition bought_two :: state where
  "bought_two = run api_client
     [PurchaseForCountry (sells ''111'' ''+15550111'') (press alice) ''US'' ''2024-05-01T10:00:00'',
      PurchaseForCountry (sells ''222'' ''+445550222'') (press alice) ''GB'' ''2024-05-02T11:00:00'',
      CancelNumber agrees (command alice) [''222'']]
     init"

text \<open>Alice has fetched a listing of twelve countries.\<close>

definition twelve :: "dict list" where
  "twelve = map (\<lambda>n. [(''country_code'', ''C'' @ str_nat n)]) [0..<12]"

definition browsing :: state where
  "browsing = init\<lparr>context_user_data := (context_user_data init)
     (1 := \<lparr>countries = Some twelve, country_page = Some 0\<rparr>)\<rparr>"

section \<open>The provider client\<close>

text \<open>
  C6. Each of the five operations of the provider client issues exactly one request.
  When the verb, the status check or the decoding of the body fails, the operation
  returns the tagged failure \<open>{"success": False, "error": str(e)}\<close> carrying the
  error text; otherwise it returns the parsed body. In every case the result is a
  returned value.
\<close>

theorem provider_client_single_attempt:
  fixes send1 :: "'a transport" and send2 :: "'b transport" and send3 :: "'c transport"
    and send4 :: "'d transport" and send5 :: "'e transport"
  shows
  "get_all_countries client send1 =
     (case send1 (all_countries_request client) of
        Json body \<Rightarrow> body | VerbRaised e \<Rightarrow> Failure (Some e)
      | StatusRaised e \<Rightarrow> Failure (Some e) | JsonRaised e \<Rightarrow> Failure (Some e),
      [all_countries_request client]) \<and>
   purchase_number client send2 code service =
     (case send2 (purchase_request client code service) of
        Json body \<Rightarrow> body | VerbRaised e \<Rightarrow> Failure (Some e)
      | StatusRaised e \<Rightarrow> Failure (Some e) | JsonRaised e \<Rightarrow> Failure (Some e),
      [purchase_request client code service]) \<and>
   get_sms client send3 number_id =
     (case send3 (sms_request client number_id) of
        Json body \<Rightarrow> body | VerbRaised e \<Rightarrow> Failure (Some e)
      | StatusRaised e \<Rightarrow> Failure (Some e) | JsonRaised e \<Rightarrow> Failure (Some e),
      [sms_request client number_id]) \<and>
   get_active_numbers client send4 =
     (case send4 (active_numbers_request client) of
        Json body \<Rightarrow> body | VerbRaised e \<Rightarrow> Failure (Some e)
      | StatusRaised e \<Rightarrow> Failure (Some e) | JsonRaised e \<Rightarrow> Failure (Some e),
      [active_numbers_request client]) \<and>
   cancel_number client send5 number_id' =
     (case send5 (cancel_request client number_id') of
        Json body \<Rightarrow> body | VerbRaised e \<Rightarrow> Failure (Some e)
      | StatusRaised e \<Rightarrow> Failure (Some e) | JsonRaised e \<Rightarrow> Failure (Some e),
      [cancel_request client number_id'])"
  by (simp add: get_all_countries_def purchase_number_def get_sms_def get_active_numbers_def
      cancel_number_def attempt_def split: http_outcome.split)

section \<open>The poll loop\<close>

lemma attempt_requests: "snd (attempt send req) = [req]"
  by (simp add: attempt_def split: http_outcome.split)

lemma forward_messages_same: "forward_messages msgs s = s"
  by (induction msgs) simp_all

lemma poll_numbers_requests:
  "poll_numbers client send items s =
     (map (\<lambda>item. sms_request client (fst item))
        (filter (\<lambda>item. status (snd item) = ''active'') items), s)"
proof (induction items arbitrary: s)
  case Nil
  show ?case by simp
next
  case (Cons item items)
  obtain number_id info where item: "item = (number_id, info)" by (cases item)
  have one: "snd (get_sms client send number_id) = [sms_request client number_id]"
    by (simp add: get_sms_def attempt_requests)
  show ?case
    using Cons.IH one
    by (cases "get_sms client send number_id")
       (simp add: item forward_messages_same split: api_result.split)
qed

text \<open>
  The body of the poll loop, were it awaited: it issues the fetch-SMS request for the
  registered numbers whose status is active, one request each in the order of the
  registry, and for no other number; it sends no message and returns the state as it was.
\<close>

lemma check_sms_scheduler_awaited:
  "check_sms_scheduler client send s =
     (finished []
        (map (\<lambda>item. sms_request client (fst item))
           (filter (\<lambda>item. status (snd item) = ''active'') (purchased_numbers s))),
      s)"
  by (simp add: check_sms_scheduler_def poll_numbers_requests)

lemma interval_job_nothing: "interval_job client send s = (finished [] [], s)"
  by (simp add: interval_job_def)

section \<open>The scenarios, evaluated\<close>

lemma bought_eq:
  "bought =
     \<lparr>user_data_store = [1 \<mapsto> \<lparr>profile = None, numbers = Some [''123'']\<rparr>],
      purchased_numbers =
        [(''123'', \<lparr>user_id = 1, country_code = ''US'', phone_number = ''+15550123'',
                    purchase_date = ''2024-05-01T10:00:00'', status = ''active''\<rparr>)],
      context_user_data = context_user_data init\<rparr>"
  by (simp add: bought_def purchase_for_country_def press_def alice_def purchase_number_def
      attempt_def sells_def init_def Let_def)

lemma bought_cancelled_eq:
  "bought_cancelled =
     \<lparr>user_data_store = [1 \<mapsto> \<lparr>profile = None, numbers = Some [''123'']\<rparr>],
      purchased_numbers =
        [(''123'', \<lparr>user_id = 1, country_code = ''US'', phone_number = ''+15550123'',
                    purchase_date = ''2024-05-01T10:00:00'', status = ''cancelled''\<rparr>)],
      context_user_data = context_user_data init\<rparr>"
  by (simp add: bought_cancelled_def bought_eq cancel_number_command_def command_def alice_def
      cancel_number_def attempt_def agrees_def Let_def respond_def)

section \<open>The poll loop as it is scheduled\<close>

text \<open>
  C10, on the code. Number 123 is registered with status active. A firing of the
  scheduler's interval job issues no request at all and leaves the state as it was; the
  body of \<open>check_sms_scheduler\<close>, which would fetch the messages of number 123, is
  never run.
\<close>

theorem interval_job_fetches_nothing:
  "map_option status (map_of (purchased_numbers bought) ''123'') = Some ''active'' \<and>
   handle api_client (CheckSms no_messages) bought = (finished [] [], bought) \<and>
   requests (fst (check_sms_scheduler api_client no_messages bought))
     = [sms_request api_client ''123'']"
  by (simp add: bought_eq interval_job_nothing check_sms_scheduler_awaited finished_def)

section \<open>Cancelling a number\<close>

lemma cancelled_text_neq [simp]:
  "cancelled_text n \<noteq> not_yours_text" "cancelled_text n \<noteq> not_found_text"
  "cancelled_text n \<noteq> cross_mark @ t"
  "not_yours_text \<noteq> cancelled_text n" "not_found_text \<noteq> cancelled_text n"
  "cross_mark @ t \<noteq> cancelled_text n"
  by (simp_all add: cancelled_text_def not_yours_text_def not_found_text_def check_mark_def
      cross_mark_def)

lemma plain_eq [simp]: "plain a = plain b \<longleftrightarrow> a = b"
  by (simp add: plain_def)

lemma respond_outcome:
  "respond upd m rs =
     (if has_message upd then finished [Reply m] rs else raising [] rs AttributeError)"
  by (simp add: respond_def)

lemma cancel_result_accepted:
  "(\<exists>d. fst (cancel_number client send n) = Success d) = accepted (send (cancel_request client n))"
  by (simp add: cancel_number_def attempt_def accepted_def split: http_outcome.split api_result.split)

text \<open>
  C1, as stated, fails in both directions. Alice cancels number 123 a second time and the
  provider reports success: the command succeeds although the status is already
  cancelled. Alice cancels her active number 123 and the provider call times out: the
  command fails although the number is registered, hers and active.
\<close>

theorem cancel_of_cancelled_number_counterexample:
  "cancel_succeeded
     (fst (cancel_number_command api_client agrees (command alice) [''123''] bought_cancelled))
     ''123'' \<and>
   \<not> spec_cancel_condition bought_cancelled (tg_id (effective_user (command alice))) ''123'' \<and>
   \<not> cancel_succeeded
     (fst (cancel_number_command api_client times_out (command alice) [''123''] bought))
     ''123'' \<and>
   spec_cancel_condition bought (tg_id (effective_user (command alice))) ''123''"
  by (simp add: bought_cancelled_eq bought_eq cancel_number_command_def command_def alice_def
      cancel_number_def attempt_def agrees_def times_out_def cancel_succeeded_def
      spec_cancel_condition_def respond_def finished_def Let_def)

text \<open>
  C1, amended. For a cancel command with a number-id, the command marks the number
  cancelled (the status of that number becomes cancelled and nothing else changes) if and
  only if the id is in the caller's list of owned numbers, the id is registered, and the
  provider's cancel call reports success; the recorded status is not consulted. In every
  other case the state is unchanged. The confirmation is the command's reply exactly when
  the number is marked cancelled and the update carries a message; for an update without
  a message the command ends in \<open>AttributeError\<close>, after any change of the status.
\<close>

theorem cancel_number_command_outcome:
  "(let R = cancel_number_command client send upd (number_id # rest) s;
        ok = (owns s (tg_id (effective_user upd)) number_id \<and>
              map_of (purchased_numbers s) number_id \<noteq> None \<and>
              accepted (send (cancel_request client number_id)))
    in snd R =
         (if ok
          then s\<lparr>purchased_numbers :=
                   AList.map_entry number_id (\<lambda>info. info\<lparr>status := ''cancelled''\<rparr>)
                     (purchased_numbers s)\<rparr>
          else s) \<and>
       (cancel_succeeded (fst R) number_id \<longleftrightarrow> ok \<and> has_message upd) \<and>
       raised (fst R) = (if has_message upd then None else Some AttributeError))"
proof (cases "owns s (tg_id (effective_user upd)) number_id")
  case False
  then show ?thesis
    by (auto simp: cancel_number_command_def owns_def cancel_succeeded_def respond_outcome
        finished_def raising_def Let_def split: option.splits)
next
  case True
  note own = this
  show ?thesis
  proof (cases "map_of (purchased_numbers s) number_id")
    case None
    then show ?thesis using own
      by (auto simp: cancel_number_command_def owns_def cancel_succeeded_def respond_outcome
        finished_def raising_def Let_def split: option.splits)
  next
    case (Some info)
    obtain result rs where c: "cancel_number client send number_id = (result, rs)"
      by (cases "cancel_number client send number_id")
    have acc: "(\<exists>d. result = Success d) = accepted (send (cancel_request client number_id))"
      using cancel_result_accepted [of client send number_id] c by simp
    show ?thesis using own Some c acc
      by (cases result)
         (auto simp: cancel_number_command_def owns_def cancel_succeeded_def respond_outcome
        finished_def raising_def Let_def split: option.splits)
  qed
qed

text \<open>
  Alice cancels her number 123 by a command: confirmed, and the number is cancelled. She
  does the same by editing an earlier message into the command: the number is cancelled
  and the command ends in \<open>AttributeError\<close>.
\<close>

theorem cancel_number_command_outcome_witness:
  "has_message (command alice) \<and>
   cancel_succeeded
     (fst (cancel_number_command api_client agrees (command alice) [''123''] bought)) ''123'' \<and>
   snd (cancel_number_command api_client agrees (command alice) [''123''] bought) = bought_cancelled \<and>
   \<not> has_message (edited alice) \<and>
   \<not> cancel_succeeded
     (fst (cancel_number_command api_client agrees (edited alice) [''123''] bought)) ''123'' \<and>
   raised (fst (cancel_number_command api_client agrees (edited alice) [''123''] bought))
     = Some AttributeError \<and>
   snd (cancel_number_command api_client agrees (edited alice) [''123''] bought) = bought_cancelled"
  using cancel_number_command_outcome [of api_client agrees "command alice" "''123''" "[]" bought]
    cancel_number_command_outcome [of api_client agrees "edited alice" "''123''" "[]" bought]
  by (simp add: command_def edited_def alice_def owns_def accepted_def agrees_def bought_eq
      bought_cancelled_eq Let_def)

text \<open>
  C4, as stated, fails. Bob cancels the id 999, which is not registered, and the id 123,
  which is registered to Alice: the two commands have the same outcome, reply included.
\<close>

theorem cancel_unknown_and_foreign_same_counterexample:
  "cancel_number_command api_client agrees (command bob) [''999''] bought =
     cancel_number_command api_client agrees (command bob) [''123''] bought \<and>
   owner bought ''999'' = None \<and>
   owner bought ''123'' = Some 1 \<and>
   tg_id (effective_user (command bob)) = 2"
  by (simp add: bought_eq cancel_number_command_def command_def bob_def owner_def Let_def)

text \<open>
  C4, amended. A cancel command with a number-id that is not in the caller's list of
  owned numbers fails in one and the same way, whether the id is unknown to the registry
  or registered to another user: it issues no request, leaves the state unchanged, and
  its reply is the one text \<open>Number not found or doesn't belong to you.\<close>; for an
  update without a message it sends nothing and ends in \<open>AttributeError\<close>.
\<close>

theorem cancel_not_owned_reply:
  assumes "\<not> owns s (tg_id (effective_user upd)) number_id"
  shows "cancel_number_command client send upd (number_id # rest) s =
           (if has_message upd then finished [Reply (plain not_yours_text)] []
            else raising [] [] AttributeError,
            s)"
  using assms
  by (auto simp: cancel_number_command_def owns_def respond_outcome split: option.splits)

theorem cancel_not_owned_reply_witness:
  "has_message (command bob) \<and>
   \<not> owns bought (tg_id (effective_user (command bob))) ''123'' \<and>
   cancel_number_command api_client agrees (command bob) [''123''] bought =
     (finished [Reply (plain not_yours_text)] [], bought)"
  using cancel_not_owned_reply [of bought "command bob" "''123''" api_client agrees "[]"]
  by (simp add: command_def bob_def owns_def bought_eq)

section \<open>What the handlers do to the state\<close>

lemma show_countries_page_state: "snd (show_countries_page upd page s) = s"
  by (simp add: show_countries_page_def Let_def)

lemma my_sms_command_state: "snd (my_sms_command upd s) = s"
  by (simp add: my_sms_command_def Let_def split: option.split)

lemma active_numbers_command_state: "snd (active_numbers_command upd s) = s"
  by (simp add: active_numbers_command_def Let_def split: option.split)

lemma view_sms_messages_state: "snd (view_sms_messages client send upd n s) = s"
  by (simp add: view_sms_messages_def Let_def split: prod.split)

lemma check_sms_scheduler_state: "snd (check_sms_scheduler client send s) = s"
  by (simp add: check_sms_scheduler_def poll_numbers_requests)

lemma list_countries_command_registry:
  "purchased_numbers (snd (list_countries_command client send upd s)) = purchased_numbers s"
  "user_data_store (snd (list_countries_command client send upd s)) = user_data_store s"
  by (simp_all add: list_countries_command_def Let_def show_countries_page_def
      split: prod.split api_result.split)

lemma cancel_number_command_owner:
  "owner (snd (cancel_number_command client send upd args s)) n = owner s n"
  by (simp add: cancel_number_command_def owner_def Let_def AList.map_of_map_entry
      split: list.split prod.split api_result.split option.split)

lemma purchase_for_country_owner:
  "issued_by client send upd code \<noteq> Some n \<Longrightarrow>
   owner (snd (purchase_for_country client send upd code now s)) n = owner s n"
  by (auto simp: purchase_for_country_def issued_by_def owner_def Let_def purchase_number_def
      attempt_def AList.update_conv' split: http_outcome.splits api_result.splits if_splits)

lemma purchase_for_country_issued:
  "issued_by client send upd code = Some n \<Longrightarrow>
   owner (snd (purchase_for_country client send upd code now s)) n
     = Some (tg_id (effective_user upd))"
  by (auto simp: purchase_for_country_def issued_by_def owner_def Let_def purchase_number_def
      attempt_def AList.update_conv' split: http_outcome.splits api_result.splits if_splits)

lemma handle_owner:
  "issued client ev \<noteq> Some n \<Longrightarrow> owner (snd (handle client ev s)) n = owner s n"
proof (cases ev)
  case (PurchaseCommand send upd args now)
  assume "issued client ev \<noteq> Some n"
  with PurchaseCommand show ?thesis
    by (cases args) (simp_all add: purchase_number_command_def purchase_for_country_owner)
qed (simp_all add: start_def help_command_def Let_def owner_def show_countries_page_state
     list_countries_command_registry my_sms_command_state active_numbers_command_state
     view_sms_messages_state interval_job_nothing purchase_for_country_owner [unfolded owner_def]
     cancel_number_command_owner [unfolded owner_def])

lemma run_owner:
  "\<forall>ev \<in> set evs. issued client ev \<noteq> Some n \<Longrightarrow> owner (run client evs s) n = owner s n"
  by (induction evs arbitrary: s) (simp_all add: handle_owner)

text \<open>
  C7, as stated, fails. Alice's purchase is answered with the number-id 123 and records
  her as its owner; a further purchase, by Bob, is answered with the same number-id, and
  the recorded owner of 123 is then Bob.
\<close>

theorem same_id_purchase_changes_owner_counterexample:
  "owner (run api_client
            [PurchaseForCountry (sells ''123'' ''+15550123'') (press alice) ''US''
               ''2024-05-01T10:00:00''] init) ''123'' = Some 1 \<and>
   owner (run api_client
            [PurchaseForCountry (sells ''123'' ''+15550123'') (press alice) ''US''
               ''2024-05-01T10:00:00'',
             PurchaseForCountry (sells ''123'' ''+15550123'') (press bob) ''US''
               ''2024-05-01T10:06:00''] init) ''123'' = Some 2"
  by (simp add: purchase_for_country_def press_def alice_def bob_def purchase_number_def
      attempt_def sells_def init_def Let_def owner_def)

text \<open>
  C7, amended. A purchase that the provider answers with a number-id records the
  purchasing user as the owner of that id, and the recorded owner is still that user
  after any further events (start, help, listings, purchases, queries, cancels, firings
  of the poll job, by any user) among which no purchase is answered with the same
  number-id again; a purchase that is answered with the same number-id writes the record
  anew, with its own caller as the owner.
\<close>

theorem owner_is_purchaser:
  assumes "issued_by client send upd code = Some number_id"
    and "\<forall>ev \<in> set evs. issued client ev \<noteq> Some number_id"
  shows "owner (run client (PurchaseForCountry send upd code now # evs) s) number_id
           = Some (tg_id (effective_user upd))"
  using assms by (simp add: run_owner purchase_for_country_issued)

text \<open>
  Alice buys 123; then Bob buys 456, Alice cancels 123 (the cancel takes effect), Bob
  asks for his messages, the poll job fires and Alice sends \<open>/start\<close>: the owner of
  123 is Alice.
\<close>

theorem owner_is_purchaser_witness:
  "issued_by api_client (sells ''123'' ''+15550123'') (press alice) ''US'' = Some ''123'' \<and>
   issued api_client
     (PurchaseForCountry (sells ''456'' ''+445550456'') (press bob) ''GB''
        ''2024-05-01T10:06:00'') = Some ''456'' \<and>
   map_option status (map_of (purchased_numbers (run api_client
            (PurchaseForCountry (sells ''123'' ''+15550123'') (press alice) ''US''
               ''2024-05-01T10:00:00'' #
             [PurchaseForCountry (sells ''456'' ''+445550456'') (press bob) ''GB''
                ''2024-05-01T10:06:00'',
              CancelNumber agrees (command alice) [''123''],
              MySms (command bob),
              CheckSms no_messages,
              Start (command alice) ''2024-05-01T10:10:00''])
            init)) ''123'') = Some ''cancelled'' \<and>
   owner (run api_client
            (PurchaseForCountry (sells ''123'' ''+15550123'') (press alice) ''US''
               ''2024-05-01T10:00:00'' #
             [PurchaseForCountry (sells ''456'' ''+445550456'') (press bob) ''GB''
                ''2024-05-01T10:06:00'',
              CancelNumber agrees (command alice) [''123''],
              MySms (command bob),
              CheckSms no_messages,
              Start (command alice) ''2024-05-01T10:10:00''])
            init) ''123''
     = Some (tg_id (effective_user (press alice)))"
proof -
  have cancelled:
    "map_option status (map_of (purchased_numbers (run api_client
            (PurchaseForCountry (sells ''123'' ''+15550123'') (press alice) ''US''
               ''2024-05-01T10:00:00'' #
             [PurchaseForCountry (sells ''456'' ''+445550456'') (press bob) ''GB''
                ''2024-05-01T10:06:00'',
              CancelNumber agrees (command alice) [''123''],
              MySms (command bob),
              CheckSms no_messages,
              Start (command alice) ''2024-05-01T10:10:00''])
            init)) ''123'') = Some ''cancelled''"
    by (simp add: purchase_for_country_def press_def alice_def bob_def purchase_number_def
        attempt_def sells_def init_def Let_def cancel_number_command_def command_def
        cancel_number_def agrees_def respond_def my_sms_command_state interval_job_nothing
        start_def)
  show ?thesis
    using owner_is_purchaser [of api_client "sells ''123'' ''+15550123''" "press alice" "''US''"
        "''123''"
        "[PurchaseForCountry (sells ''456'' ''+445550456'') (press bob) ''GB''
            ''2024-05-01T10:06:00'',
          CancelNumber agrees (command alice) [''123''],
          MySms (command bob),
          CheckSms no_messages,
          Start (command alice) ''2024-05-01T10:10:00'']" "''2024-05-01T10:00:00''" init]
      cancelled
    by (simp add: issued_by_def sells_def press_def)
qed

section \<open>Repeating a query\<close>






section \<open>Pagination\<close>

lemma take_drop_nth:
  "take n (drop a xs) = map ((!) xs) [a ..< min (a + n) (length xs)]"
  by (rule nth_equalityI) auto

lemma py_slice_page:
  "py_slice cs (int k * 10) (int k * 10 + 10) = take 10 (drop (10 * k) cs)"
proof (cases "10 * k < length cs")
  case True
  then show ?thesis
    by (auto simp: py_slice_def Let_def min_def nat_diff_distrib nat_add_distrib nat_mult_distrib
        mult.commute)
next
  case False
  then show ?thesis
    by (auto simp: py_slice_def Let_def min_def)
qed

lemma button_distinct [simp]:
  "next_button p \<noteq> country_button c" "next_button p \<noteq> main_menu_button"
  "next_button p \<noteq> previous_button q"
  "previous_button p \<noteq> country_button c" "previous_button p \<noteq> main_menu_button"
  "previous_button q \<noteq> next_button p"
  by (simp_all add: next_button_def country_button_def main_menu_button_def previous_button_def
      InlineKeyboardButton_def left_arrow_def)

lemma page_two_of_twelve:
  "map (map callback_data) (edited_keyboard (fst (show_countries_page (press alice) 1 browsing)))
     = [[''select_country_C10''], [''select_country_C11''], [''country_page_0''], [''main_menu'']]"
  by code_simp

text \<open>
  C5. For the cached listing of \<open>N\<close> countries and every page index \<open>k\<close>, the
  keyboard of the rendered page has one button for each item with index in
  \<open>[10k, min(10(k+1), N))\<close>, in that order, then the row of navigation controls if
  there is one, then the main-menu button. The Next control is on the page if and only if
  \<open>10(k+1) < N\<close>, the Previous control if and only if \<open>k > 0\<close>.
\<close>

theorem show_countries_page_pagination:
  "(let cs = cached_countries (context_user_data s (tg_id (effective_user upd)));
        N = length cs;
        kb = edited_keyboard (fst (show_countries_page upd (int k) s))
    in kb = map (\<lambda>i. [country_button (cs ! i)]) [10 * k ..< min (10 * (k + 1)) N] @
            (if 0 < k \<or> 10 * (k + 1) < N
             then [(if 0 < k then [previous_button (int k)] else []) @
                   (if 10 * (k + 1) < N then [next_button (int k)] else [])]
             else []) @
            [[main_menu_button]] \<and>
       (next_button (int k) \<in> set (concat kb) \<longleftrightarrow> 10 * (k + 1) < N) \<and>
       (previous_button (int k) \<in> set (concat kb) \<longleftrightarrow> 0 < k))"
proof -
  define cs where "cs = cached_countries (context_user_data s (tg_id (effective_user upd)))"
  have slice: "py_slice cs (int k * 10) (int k * 10 + 10)
                 = map ((!) cs) [10 * k ..< min (10 * (k + 1)) (length cs)]"
    unfolding py_slice_page take_drop_nth by (simp add: add.commute)
  have nxt: "(int k * 10 + 10 < int (length cs)) = (10 * (k + 1) < length cs)"
    by auto
  have kb: "edited_keyboard (fst (show_countries_page upd (int k) s)) =
      map (\<lambda>i. [country_button (cs ! i)]) [10 * k ..< min (10 * (k + 1)) (length cs)] @
            (if 0 < k \<or> 10 * (k + 1) < length cs
             then [(if 0 < k then [previous_button (int k)] else []) @
                   (if 10 * (k + 1) < length cs then [next_button (int k)] else [])]
             else []) @
            [[main_menu_button]]"
    unfolding show_countries_page_def Let_def cs_def [symmetric] slice nxt
    by (simp add: edited_keyboard_def finished_def markdown_def o_def)
  show ?thesis
    unfolding Let_def cs_def [symmetric] kb
    by (auto simp: o_def)
qed

section \<open>What \<open>start\<close> does to a user who owns numbers\<close>

lemma bought_started_eq:
  "bought_started =
     \<lparr>user_data_store =
        [1 \<mapsto> \<lparr>profile = Some \<lparr>username = Some ''alice'', first_name = ''Alice'',
                                  join_date = ''2024-05-01T10:05:00''\<rparr>,
                 numbers = None\<rparr>],
      purchased_numbers =
        [(''123'', \<lparr>user_id = 1, country_code = ''US'', phone_number = ''+15550123'',
                    purchase_date = ''2024-05-01T10:00:00'', status = ''active''\<rparr>)],
      context_user_data = context_user_data init\<rparr>"
  by (simp add: bought_started_def bought_eq start_def command_def alice_def Let_def)

text \<open>
  C2, on the code. Alice buys number 123 and then sends \<open>/start\<close>. Before the
  \<open>/start\<close> the number is registered to her and in her list; after it the number is
  still registered to her, and it is in no user's list of owned numbers.
\<close>

theorem start_orphans_purchased_number:
  "owner bought ''123'' = Some 1 \<and> owns bought 1 ''123'' \<and>
   owner bought_started ''123'' = Some 1 \<and> (\<forall>uid. \<not> owns bought_started uid ''123'')"
  by (simp add: bought_eq bought_started_eq owner_def owns_def)

text \<open>
  C3, on the code. Alice's record holds the list \<open>[123]\<close>; \<open>start\<close>, which is not a
  purchase, replaces the record by one without a list of numbers.
\<close>

theorem start_discards_owned_numbers:
  "map_option numbers (user_data_store bought 1) = Some (Some [''123'']) \<and>
   map_option numbers
     (user_data_store (snd (start (command alice) ''2024-05-01T10:05:00'' bought)) 1)
     = Some None"
  by (simp add: bought_eq start_def command_def alice_def Let_def)

section \<open>The rendering of \<open>active\<close>\<close>

lemma bought_two_eq:
  "bought_two =
     \<lparr>user_data_store = [1 \<mapsto> \<lparr>profile = None, numbers = Some [''111'', ''222'']\<rparr>],
      purchased_numbers =
        [(''111'', \<lparr>user_id = 1, country_code = ''US'', phone_number = ''+15550111'',
                    purchase_date = ''2024-05-01T10:00:00'', status = ''active''\<rparr>),
         (''222'', \<lparr>user_id = 1, country_code = ''GB'', phone_number = ''+445550222'',
                    purchase_date = ''2024-05-02T11:00:00'', status = ''cancelled''\<rparr>)],
      context_user_data = context_user_data init\<rparr>"
  by (simp add: bought_two_def purchase_for_country_def press_def alice_def purchase_number_def
      attempt_def sells_def init_def Let_def cancel_number_command_def command_def
      cancel_number_def agrees_def respond_def)

text \<open>
  C9, on the code. Alice owns the active number 111 and the cancelled number 222. Her
  \<open>active\<close> command renders one entry, for the phone number and country of number 111,
  and shows under \<open>ID\<close> the id 222.
\<close>

theorem active_numbers_command_shows_last_id:
  "map_of (purchased_numbers bought_two) ''111'' =
     Some \<lparr>user_id = 1, country_code = ''US'', phone_number = ''+15550111'',
           purchase_date = ''2024-05-01T10:00:00'', status = ''active''\<rparr> \<and>
   fst (active_numbers_command (command alice) bought_two) =
     finished
       [Reply (markdown
          (mobile_phone @ '' *Your Active Numbers*\<newline>'' @ ''\<newline>'' @
           bullet @ '' *Number:* +15550111\<newline>'' @
           ''  *Country:* US\<newline>'' @
           ''  *ID:* `222`\<newline>'' @
           ''  *Since:* 2024-05-01\<newline>'' @ ''\<newline>'' @
           ''Use /cancel <number_id> to cancel a number.'') None)] []"
  by (simp add: bought_two_eq active_numbers_command_def command_def alice_def Let_def
      respond_def active_entry_def)

end
